theory Spec2Isabelle
  imports Main
begin

section \<open>The dispatch registry of \<^verbatim>\<open>prefect/utilities/dispatch.py\<close>\<close>

subsection \<open>Python values, classes and exceptions\<close>

text \<open>
  The exceptions the module raises, one constructor per \<^verbatim>\<open>raise\<close> site (the message
  is built from the data the constructor carries), plus the \<^verbatim>\<open>AttributeError\<close> that
  Python itself raises for \<^verbatim>\<open>None.get\<close> and whatever a user-written
  \<^verbatim>\<open>__dispatch_key__\<close> callable raises.
\<close>

datatype pyerror =
    MissingDispatchKey string
  | DispatchKeyNotStr string
  | NoRegistryFound string
  | NoClassForKey string
  | NoneHasNoGet
  | Raised string

datatype pyexc = ValueError | TypeError | KeyError | AttributeError | OtherException

fun exception_class :: "pyerror \<Rightarrow> pyexc" where
  "exception_class (MissingDispatchKey type_name) = ValueError"
| "exception_class (DispatchKeyNotStr type_name) = TypeError"
| "exception_class (NoRegistryFound type_name) = ValueError"
| "exception_class (NoClassForKey dispatch_key) = KeyError"
| "exception_class NoneHasNoGet = AttributeError"
| "exception_class (Raised msg) = OtherException"

text \<open>
  What \<^verbatim>\<open>getattr(x, "__dispatch_key__", None)\<close> can be: \<^verbatim>\<open>None\<close> (also when the
  attribute is absent, by the default of \<^verbatim>\<open>getattr\<close>), a string, some other
  non-callable value (an integer stands for these), or a callable, given by what calling
  it with no arguments does: raise, or return a value.
\<close>

datatype pyval =
    PyNone
  | PyStr string
  | PyInt int
  | PyCallable "pyerror + pyval"

text \<open>
  A class: its identity, its \<^verbatim>\<open>__name__\<close>, the classes that follow it in its method
  resolution order, and the value of its \<^verbatim>\<open>__dispatch_key__\<close> attribute as
  \<^verbatim>\<open>getattr\<close> on the class resolves it.
\<close>

datatype pyclass =
  PyClass (cls_id: nat) (cls_name: string) (cls_bases: "pyclass list") (cls_dispatch_key: pyval)

text \<open>\<^verbatim>\<open>cls.mro()\<close>: the class itself first, then its bases in resolution order.\<close>

definition mro :: "pyclass \<Rightarrow> pyclass list" where
  "mro cls = cls # cls_bases cls"

text \<open>
  The argument of \<^verbatim>\<open>get_dispatch_key\<close> is a class or an instance. An instance is given
  by its class and by what \<^verbatim>\<open>getattr\<close> resolves \<^verbatim>\<open>__dispatch_key__\<close> to on it (a
  bound method, an instance attribute, or the class attribute).
\<close>

datatype pyobject = ClassObj pyclass | InstanceObj pyclass pyval

fun getattr_dispatch_key :: "pyobject \<Rightarrow> pyval" where
  "getattr_dispatch_key (ClassObj cls) = cls_dispatch_key cls"
| "getattr_dispatch_key (InstanceObj cls v) = v"

fun type_name_of :: "pyobject \<Rightarrow> string" where
  "type_name_of (ClassObj cls) = cls_name cls"
| "type_name_of (InstanceObj cls v) = cls_name cls"

fun callable :: "pyval \<Rightarrow> bool" where
  "callable (PyCallable r) = True"
| "callable v = False"

fun call :: "pyval \<Rightarrow> pyerror + pyval" where
  "call (PyCallable r) = r"
| "call v = Inl (Raised ''object is not callable'')"

subsection \<open>The registry state\<close>

text \<open>
  \<^verbatim>\<open>_TYPE_REGISTRIES\<close> maps a class to a dictionary object, and the functions mutate
  these dictionaries in place through references. The state is therefore a store: the
  outer dictionary holds references, the heap holds the dictionary each reference points
  to, and \<open>next_ref\<close> is the next unused reference. A subregistry's keys are what
  \<^verbatim>\<open>get_dispatch_key\<close> returned, \<^verbatim>\<open>Optional[str]\<close>.
\<close>

type_synonym ref = nat

type_synonym subregistry = "string option \<rightharpoonup> pyclass"

record registry_state =
  type_registries :: "pyclass \<rightharpoonup> ref"
  heap :: "ref \<Rightarrow> subregistry"
  next_ref :: ref

definition empty_state :: registry_state where
  "empty_state = \<lparr>type_registries = Map.empty, heap = (\<lambda>r. Map.empty), next_ref = 0\<rparr>"

text \<open>
  \<^verbatim>\<open>_TYPE_REGISTRIES.setdefault(cls, {})\<close>: the dictionary already stored for the
  class, or a new empty one, stored under the class.
\<close>

definition setdefault_registry :: "registry_state \<Rightarrow> pyclass \<Rightarrow> ref \<times> registry_state" where
  "setdefault_registry st cls =
     (case type_registries st cls of
        Some registry \<Rightarrow> (registry, st)
      | None \<Rightarrow>
          (next_ref st,
           st\<lparr>type_registries := (type_registries st)(cls \<mapsto> next_ref st),
              heap := (heap st)(next_ref st := Map.empty),
              next_ref := Suc (next_ref st)\<rparr>))"

text \<open>\<^verbatim>\<open>registry[key] = cls\<close> on the dictionary a reference points to.\<close>

definition registry_store :: "registry_state \<Rightarrow> ref \<Rightarrow> string option \<Rightarrow> pyclass \<Rightarrow> registry_state" where
  "registry_store st registry key cls = st\<lparr>heap := (heap st)(registry := (heap st registry)(key \<mapsto> cls))\<rparr>"

subsection \<open>The functions of the module\<close>

text \<open>
  \<^verbatim>\<open>next(filter(lambda registry: registry is not None,
                   (_TYPE_REGISTRIES.get(cls) for cls in cls.mro())), None)\<close>
\<close>

definition get_registry_for_type :: "registry_state \<Rightarrow> pyclass \<Rightarrow> ref option" where
  "get_registry_for_type st cls =
     (case filter (\<lambda>registry. registry \<noteq> None) (map (type_registries st) (mro cls)) of
        [] \<Rightarrow> None
      | registry # rest \<Rightarrow> registry)"

definition get_dispatch_key :: "pyobject \<Rightarrow> bool \<Rightarrow> pyerror + string option" where
  "get_dispatch_key cls_or_instance allow_missing =
     (let dispatch_key = getattr_dispatch_key cls_or_instance;
          type_name = type_name_of cls_or_instance
      in if dispatch_key = PyNone then
           (if allow_missing then Inr None else Inl (MissingDispatchKey type_name))
         else
           (case (if callable dispatch_key then call dispatch_key else Inr dispatch_key) of
              Inl e \<Rightarrow> Inl e
            | Inr resolved \<Rightarrow>
                if allow_missing \<and> resolved = PyNone then Inr None
                else (case resolved of
                        PyStr s \<Rightarrow> Inr (Some s)
                      | other \<Rightarrow> Inl (DispatchKeyNotStr type_name))))"

text \<open>
  The stateful functions return the outcome (the exception raised, or the value
  returned) together with the state they leave behind.
\<close>

definition register_base_type :: "registry_state \<Rightarrow> pyclass \<Rightarrow> (pyerror + pyclass) \<times> registry_state" where
  "register_base_type st cls =
     (let (registry, st1) = setdefault_registry st cls
      in case get_dispatch_key (ClassObj cls) True of
           Inl e \<Rightarrow> (Inl e, st1)
         | Inr base_key \<Rightarrow>
             if base_key \<noteq> None then (Inr cls, registry_store st1 registry base_key cls)
             else (Inr cls, st1))"

definition register_type :: "registry_state \<Rightarrow> pyclass \<Rightarrow> (pyerror + pyclass) \<times> registry_state" where
  "register_type st cls =
     (case get_registry_for_type st cls of
        None \<Rightarrow> (Inl (NoRegistryFound (cls_name cls)), st)
      | Some registry \<Rightarrow>
          (case get_dispatch_key (ClassObj cls) False of
             Inl e \<Rightarrow> (Inl e, st)
           | Inr key \<Rightarrow> (Inr cls, registry_store st registry key cls)))"

definition lookup_type :: "registry_state \<Rightarrow> pyclass \<Rightarrow> string \<Rightarrow> pyerror + pyclass" where
  "lookup_type st cls dispatch_key =
     (case get_registry_for_type st cls of
        None \<Rightarrow> Inl NoneHasNoGet
      | Some registry \<Rightarrow>
          (case heap st registry (Some dispatch_key) of
             None \<Rightarrow> Inl (NoClassForKey dispatch_key)
           | Some subcls \<Rightarrow> Inr subcls))"

section \<open>Composite filters\<close>

text \<open>
  The filter classes (\<^verbatim>\<open>prefect.orion.schemas.filters\<close>) are not among the sources; only
  their tests are. The definitions of this section follow section 4.2 of the specification.
\<close>

text \<open>
  Modelled from the spec: the value of a constraint field of a composite filter (the
  filter classes are missing). An inclusion list, an is-null flag, a timestamp (as a
  number of time units since some epoch), or any other constraint argument.
\<close>

datatype fval = FList "string list" | FFlag bool | FTime int | FInt int

text \<open>
  Modelled from the spec: the rule instances a concrete filter type opts into, each with
  the names of the two fields it relates (the schema layer that declares them is
  missing): an inclusion operator and an is-null flag that exclude each other, a
  "before" and an "after" timestamp that must be ordered.
\<close>

datatype rule = ExclusiveWithIsNull string string | OrderedRange string string

text \<open>
  Modelled from the spec: the two field names a rule instance relates (the declarations
  of the schema layer are missing).
\<close>

fun rule_fields :: "rule \<Rightarrow> string \<times> string" where
  "rule_fields (ExclusiveWithIsNull inclusion is_null) = (inclusion, is_null)"
| "rule_fields (OrderedRange before_name after_name) = (before_name, after_name)"

text \<open>
  Modelled from the spec: a concrete filter type (missing from the sources): its name,
  the constraint fields it recognizes, and the rule instances it declares.
\<close>

record filter_type =
  ft_name :: string
  ft_fields :: "string list"
  ft_rules :: "rule list"

text \<open>
  Modelled from the spec: the arguments of a construction, field name to value; a field
  that is null or absent maps to \<open>None\<close>.
\<close>

type_synonym filter_args = "string \<rightharpoonup> fval"

text \<open>
  Modelled from the spec: the \<^verbatim>\<open>ValidationError\<close> of the missing validator, which
  identifies the rules that were violated.
\<close>

datatype violation =
    NoOperator
  | InclusionWithIsNull string string
  | BeforeLessThanAfter string string

text \<open>
  Modelled from the spec: the error of a failed construction (the validator that raises
  it is missing): the name of the filter type and the violations found.
\<close>

datatype validation_error = ValidationError string "violation list"

text \<open>
  Modelled from the spec: the violation that the missing validator reports for a rule
  instance.
\<close>

fun violation_of :: "rule \<Rightarrow> violation" where
  "violation_of (ExclusiveWithIsNull inclusion is_null) = InclusionWithIsNull inclusion is_null"
| "violation_of (OrderedRange before_name after_name) = BeforeLessThanAfter before_name after_name"

text \<open>
  Modelled from the spec: the fields of the type as the validator sees them (the
  validator is missing); a name the type does not recognize is ignored.
\<close>

definition recognized :: "filter_type \<Rightarrow> filter_args \<Rightarrow> filter_args" where
  "recognized ft args = args |` set (ft_fields ft)"

text \<open>
  Modelled from the spec: the "at least one operator" rule of the missing validator:
  violated if every recognized constraint field is null or absent.
\<close>

definition no_operator :: "filter_type \<Rightarrow> filter_args \<Rightarrow> bool" where
  "no_operator ft args = list_all (\<lambda>name. recognized ft args name = None) (ft_fields ft)"

text \<open>
  Modelled from the spec: a rule is scoped to the filter type that declares the relevant
  fields (the declarations are missing): both fields of the pair are fields of the type,
  and they are two fields.
\<close>

definition rule_applies :: "filter_type \<Rightarrow> rule \<Rightarrow> bool" where
  "rule_applies ft r =
     (case rule_fields r of
        (x, y) \<Rightarrow> x \<noteq> y \<and> x \<in> set (ft_fields ft) \<and> y \<in> set (ft_fields ft))"

text \<open>
  Modelled from the spec: the timestamp a field holds, if it is set to one (the typed
  field declarations of the filter classes are missing).
\<close>

fun timestamp :: "fval option \<Rightarrow> int option" where
  "timestamp (Some (FTime t)) = Some t"
| "timestamp v = None"

text \<open>
  Modelled from the spec: the two cross-field rules of the missing validator. The
  exclusive rule is violated when the is-null flag and the inclusion operator are both
  set (non-null), whatever the inclusion list holds; the ordered-range rule when both
  timestamps are set and before is strictly earlier than after.
\<close>

fun rule_violated :: "filter_args \<Rightarrow> rule \<Rightarrow> bool" where
  "rule_violated args (ExclusiveWithIsNull inclusion is_null) =
     (args inclusion \<noteq> None \<and> args is_null \<noteq> None)"
| "rule_violated args (OrderedRange before_name after_name) =
     (case (timestamp (args before_name), timestamp (args after_name)) of
        (Some b, Some a) \<Rightarrow> b < a
      | other \<Rightarrow> False)"

text \<open>
  Modelled from the spec: all rules are evaluated together at construction (the
  validator is missing); construction succeeds when none is violated and fails with a
  \<^verbatim>\<open>ValidationError\<close> otherwise.
\<close>

definition violations :: "filter_type \<Rightarrow> filter_args \<Rightarrow> violation list" where
  "violations ft args =
     (if no_operator ft args then [NoOperator] else []) @
     map violation_of
       (filter (\<lambda>r. rule_applies ft r \<and> rule_violated (recognized ft args) r) (ft_rules ft))"

definition construct_filter :: "filter_type \<Rightarrow> filter_args \<Rightarrow> validation_error + filter_args" where
  "construct_filter ft args =
     (let errs = violations ft args
      in if errs = [] then Inr (recognized ft args) else Inl (ValidationError (ft_name ft) errs))"

section \<open>Example classes and filter types\<close>

text \<open>The classes of the module's docstring: a base with a class method as key, and a subclass.\<close>

definition object_cls :: pyclass where
  "object_cls = PyClass 0 ''object'' [] PyNone"

definition Base_cls :: pyclass where
  "Base_cls = PyClass 1 ''Base'' [object_cls] (PyCallable (Inr (PyStr ''base'')))"

definition Foo_cls :: pyclass where
  "Foo_cls = PyClass 2 ''Foo'' [Base_cls, object_cls] (PyCallable (Inr (PyStr ''foo'')))"

text \<open>A hierarchy with two registered bases: \<^verbatim>\<open>Child(Mid)\<close>, \<^verbatim>\<open>Mid(Root)\<close>, \<^verbatim>\<open>Root\<close>.\<close>

definition Root_cls :: pyclass where
  "Root_cls = PyClass 3 ''Root'' [object_cls] PyNone"

definition Mid_cls :: pyclass where
  "Mid_cls = PyClass 4 ''Mid'' [Root_cls, object_cls] PyNone"

definition Child_cls :: pyclass where
  "Child_cls = PyClass 5 ''Child'' [Mid_cls, Root_cls, object_cls] (PyStr ''child'')"

text \<open>A class whose \<^verbatim>\<open>__dispatch_key__ = 5\<close>, and one whose key method returns \<^verbatim>\<open>None\<close>.\<close>

definition BadKey_cls :: pyclass where
  "BadKey_cls = PyClass 6 ''BadKey'' [object_cls] (PyInt 5)"

definition Lazy_cls :: pyclass where
  "Lazy_cls = PyClass 7 ''Lazy'' [object_cls] (PyCallable (Inr PyNone))"

text \<open>The state after \<^verbatim>\<open>register_base_type(Root)\<close> and \<^verbatim>\<open>register_base_type(Mid)\<close>.\<close>

definition two_bases :: registry_state where
  "two_bases = snd (register_base_type (snd (register_base_type empty_state Root_cls)) Mid_cls)"

text \<open>
  The state after \<^verbatim>\<open>register_base_type(Base)\<close>, and the state after
  \<^verbatim>\<open>register_type(Foo)\<close> on it.
\<close>

definition base_only :: registry_state where
  "base_only = snd (register_base_type empty_state Base_cls)"

definition base_and_foo :: registry_state where
  "base_and_foo = snd (register_type base_only Foo_cls)"

text \<open>
  The filter types of the tests, with the fields the tests set: two integer fields; tags
  with an is-null flag; a start time range.
\<close>

definition MyNewFilter :: filter_type where
  "MyNewFilter = \<lparr>ft_name = ''MyNewFilter'', ft_fields = [''foo_'', ''bar_''], ft_rules = []\<rparr>"

definition FlowFilterTags :: filter_type where
  "FlowFilterTags =
     \<lparr>ft_name = ''FlowFilterTags'', ft_fields = [''all_'', ''is_null_''],
      ft_rules = [ExclusiveWithIsNull ''all_'' ''is_null_'']\<rparr>"


section \<open>Properties of the registry\<close>

subsection \<open>Finding the registry of a class\<close>

lemma first_some_find:
  "(case filter (\<lambda>r. r \<noteq> None) (map f xs) of [] \<Rightarrow> None | r # rest \<Rightarrow> r) =
   (case find (\<lambda>c. f c \<noteq> None) xs of None \<Rightarrow> None | Some c \<Rightarrow> f c)"
  by (induction xs) auto

lemma get_registry_for_type_find:
  "get_registry_for_type st cls =
   (case find (\<lambda>c. type_registries st c \<noteq> None) (mro cls) of
      None \<Rightarrow> None
    | Some base \<Rightarrow> type_registries st base)"
  unfolding get_registry_for_type_def by (rule first_some_find)

lemma get_registry_for_type_self:
  "type_registries st cls = Some r \<Longrightarrow> get_registry_for_type st cls = Some r"
  by (simp add: get_registry_for_type_def mro_def)

lemma get_registry_for_type_None:
  "get_registry_for_type st cls = None \<longleftrightarrow> (\<forall>c \<in> set (mro cls). type_registries st c = None)"
  by (auto simp: get_registry_for_type_find find_None_iff split: option.splits
      dest: find_Some_iff [THEN iffD1])

lemma find_registered:
  "find (\<lambda>c. type_registries st c \<noteq> None) (mro S) = Some B \<Longrightarrow> \<exists>r. type_registries st B = Some r"
  by (auto simp: find_Some_iff)

lemma get_dispatch_key_required: "get_dispatch_key obj False \<noteq> Inr None"
  by (auto simp: get_dispatch_key_def Let_def split: sum.splits pyval.splits)

subsection \<open>The example states\<close>

lemma root_dispatch_key: "get_dispatch_key (ClassObj Root_cls) True = Inr None"
  by (simp add: get_dispatch_key_def Root_cls_def)

lemma base_only_state:
  "base_only =
     \<lparr>type_registries = [Base_cls \<mapsto> 0],
      heap = (\<lambda>r. Map.empty)(0 := [Some ''base'' \<mapsto> Base_cls]),
      next_ref = Suc 0\<rparr>"
  by (simp add: base_only_def register_base_type_def setdefault_registry_def empty_state_def
      get_dispatch_key_def registry_store_def Base_cls_def)

lemma foo_registry: "find (\<lambda>c. type_registries base_only c \<noteq> None) (mro Foo_cls) = Some Base_cls"
  by (simp add: base_only_state mro_def Foo_cls_def Base_cls_def)

lemma foo_dispatch_key: "get_dispatch_key (ClassObj Foo_cls) False = Inr (Some ''foo'')"
  by (simp add: get_dispatch_key_def Foo_cls_def)

lemma base_and_foo_state:
  "base_and_foo =
     \<lparr>type_registries = [Base_cls \<mapsto> 0],
      heap = (\<lambda>r. Map.empty)(0 := [Some ''base'' \<mapsto> Base_cls, Some ''foo'' \<mapsto> Foo_cls]),
      next_ref = Suc 0\<rparr>"
proof -
  have r: "get_registry_for_type base_only Foo_cls = Some 0"
    using foo_registry by (simp add: get_registry_for_type_find base_only_state)
  have "register_type base_only Foo_cls =
      (Inr Foo_cls, registry_store base_only 0 (Some ''foo'') Foo_cls)"
    by (simp add: register_type_def r foo_dispatch_key)
  then show ?thesis
    by (simp add: base_and_foo_def registry_store_def base_only_state)
qed

lemma foo_registered_under_base:
  "find (\<lambda>c. type_registries base_and_foo c \<noteq> None) (mro Foo_cls) = Some Base_cls"
  by (simp add: base_and_foo_state mro_def Foo_cls_def Base_cls_def)

lemma two_bases_state:
  "two_bases =
     \<lparr>type_registries = [Root_cls \<mapsto> 0, Mid_cls \<mapsto> Suc 0],
      heap = (\<lambda>r. Map.empty)(0 := Map.empty, Suc 0 := Map.empty),
      next_ref = Suc (Suc 0)\<rparr>"
  by (simp add: two_bases_def register_base_type_def setdefault_registry_def empty_state_def
      get_dispatch_key_def registry_store_def Root_cls_def Mid_cls_def)

lemma child_dispatch_key: "get_dispatch_key (ClassObj Child_cls) False = Inr (Some ''child'')"
  by (simp add: get_dispatch_key_def Child_cls_def)

lemma child_registry: "get_registry_for_type two_bases Child_cls = Some (Suc 0)"
  by (simp add: get_registry_for_type_def mro_def two_bases_state Child_cls_def Mid_cls_def Root_cls_def)

lemma root_registry: "get_registry_for_type two_bases Root_cls = Some 0"
  by (simp add: get_registry_for_type_def mro_def two_bases_state Mid_cls_def Root_cls_def)

lemma base_dispatch_key: "get_dispatch_key (ClassObj Base_cls) True = Inr (Some ''base'')"
  by (simp add: get_dispatch_key_def Base_cls_def)

subsection \<open>Lookup in a registry that was found\<close>

lemma lookup_type_found:
  "get_registry_for_type st cls = Some r \<Longrightarrow>
   lookup_type st cls k =
     (case heap st r (Some k) of None \<Rightarrow> Inl (NoClassForKey k) | Some subcls \<Rightarrow> Inr subcls)"
  by (simp add: lookup_type_def)


subsection \<open>Steps of the registration functions\<close>

lemma setdefault_registry_registered:
  "type_registries (snd (setdefault_registry st cls)) cls = Some (fst (setdefault_registry st cls))"
  by (simp add: setdefault_registry_def split: option.splits)

lemma setdefault_registry_existing:
  "type_registries st cls = Some r \<Longrightarrow> setdefault_registry st cls = (r, st)"
  by (simp add: setdefault_registry_def)

lemma setdefault_registry_new:
  "type_registries st cls = None \<Longrightarrow>
   heap (snd (setdefault_registry st cls)) (fst (setdefault_registry st cls)) = Map.empty"
  by (simp add: setdefault_registry_def)

lemma registry_store_registries:
  "type_registries (registry_store st r key cls) = type_registries st"
  by (simp add: registry_store_def)

lemma registry_store_same:
  "heap st r key = Some cls \<Longrightarrow> registry_store st r key cls = st"
  by (simp add: registry_store_def map_upd_triv)

lemma register_base_type_result:
  "register_base_type st cls =
     (case get_dispatch_key (ClassObj cls) True of
        Inl e \<Rightarrow> (Inl e, snd (setdefault_registry st cls))
      | Inr None \<Rightarrow> (Inr cls, snd (setdefault_registry st cls))
      | Inr (Some k) \<Rightarrow>
          (Inr cls, registry_store (snd (setdefault_registry st cls))
                      (fst (setdefault_registry st cls)) (Some k) cls))"
  by (simp add: register_base_type_def split_beta split: sum.splits option.splits)

lemma register_base_type_ensures_registry:
  "type_registries (snd (register_base_type st cls)) cls = Some (fst (setdefault_registry st cls))"
  by (simp add: register_base_type_result setdefault_registry_registered registry_store_registries
      split: sum.splits option.splits)

lemma register_type_frame:
  "get_registry_for_type st cls = Some r \<Longrightarrow>
   get_dispatch_key (ClassObj cls) False = Inr key \<Longrightarrow>
   r' \<noteq> r \<or> key' \<noteq> key \<Longrightarrow>
   heap (snd (register_type st cls)) r' key' = heap st r' key'"
  by (auto simp: register_type_def registry_store_def)

lemma register_type_keeps_registries:
  "type_registries (snd (register_type st cls)) = type_registries st"
  by (simp add: register_type_def registry_store_def split: option.splits sum.splits)

lemma register_type_failure_keeps_state:
  "fst (register_type st cls) = Inl e \<Longrightarrow> snd (register_type st cls) = st"
  by (auto simp: register_type_def split: option.splits sum.splits)

subsection \<open>Lookup goes through the nearest registered base\<close>

text \<open>
  Claim C10. For every type \<open>S\<close>, every type \<open>B\<close> that is the first class of the
  method resolution order of \<open>S\<close> with a subregistry, and every key \<open>k\<close>:
  \<^verbatim>\<open>lookup_type(S, k)\<close> and \<^verbatim>\<open>lookup_type(B, k)\<close> consult the same subregistry (the
  same dictionary object) and so return the same class or fail in the same way, whether
  or not \<open>S\<close> has a subregistry of its own.
\<close>

theorem lookup_through_nearest_base:
  assumes "find (\<lambda>c. type_registries st c \<noteq> None) (mro S) = Some B"
  shows "get_registry_for_type st S = get_registry_for_type st B \<and>
         lookup_type st S k = lookup_type st B k"
proof -
  obtain r where r: "type_registries st B = Some r"
    using find_registered [OF assms] by blast
  have "get_registry_for_type st S = Some r"
    using assms r by (simp add: get_registry_for_type_find)
  moreover have "get_registry_for_type st B = Some r"
    using r by (rule get_registry_for_type_self)
  ultimately show ?thesis
    by (simp add: lookup_type_def)
qed

theorem lookup_through_nearest_base_witness:
  "find (\<lambda>c. type_registries base_and_foo c \<noteq> None) (mro Foo_cls) = Some Base_cls \<and>
   type_registries base_and_foo Foo_cls = None \<and>
   get_registry_for_type base_and_foo Foo_cls = get_registry_for_type base_and_foo Base_cls \<and>
   lookup_type base_and_foo Foo_cls ''foo'' = lookup_type base_and_foo Base_cls ''foo'' \<and>
   lookup_type base_and_foo Base_cls ''foo'' = Inr Foo_cls"
proof -
  have 1: "type_registries base_and_foo Foo_cls = None"
    by (simp add: base_and_foo_state Foo_cls_def Base_cls_def)
  have "get_registry_for_type base_and_foo Base_cls = Some 0"
    by (rule get_registry_for_type_self) (simp add: base_and_foo_state)
  then have 2: "lookup_type base_and_foo Base_cls ''foo'' = Inr Foo_cls"
    by (simp add: lookup_type_def base_and_foo_state)
  from foo_registered_under_base 1 2
    lookup_through_nearest_base [OF foo_registered_under_base, of "''foo''"]
  show ?thesis by simp
qed

subsection \<open>Registering a subtype\<close>

text \<open>
  Claim C1, as stated: for every subtype \<open>S\<close> of a base type \<open>B\<close> that has a
  subregistry, \<^verbatim>\<open>register_type(S)\<close> inserts \<open>S\<close> into the subregistry of \<open>B\<close>. The
  code inserts into the subregistry of the first class of the method resolution order of
  \<open>S\<close> that has one, which need not be \<open>B\<close>: with \<^verbatim>\<open>Root\<close> and \<^verbatim>\<open>Mid(Root)\<close> both
  registered as bases, \<^verbatim>\<open>Child(Mid)\<close> goes into the subregistry of \<^verbatim>\<open>Mid\<close>, and
  \<^verbatim>\<open>lookup_type(Root, "child")\<close> raises \<^verbatim>\<open>KeyError\<close>.
\<close>

theorem register_type_nested_bases_counterexample:
  "Root_cls \<in> set (mro Child_cls) \<and>
   type_registries two_bases Root_cls = Some 0 \<and>
   get_dispatch_key (ClassObj Child_cls) False = Inr (Some ''child'') \<and>
   fst (register_type two_bases Child_cls) = Inr Child_cls \<and>
   lookup_type (snd (register_type two_bases Child_cls)) Root_cls ''child'' =
     Inl (NoClassForKey ''child'')"
proof -
  have "Root_cls \<in> set (mro Child_cls)"
    by (simp add: mro_def Child_cls_def)
  moreover have "type_registries two_bases Root_cls = Some 0"
    by (simp add: two_bases_state Root_cls_def Mid_cls_def)
  moreover have reg: "register_type two_bases Child_cls =
      (Inr Child_cls, registry_store two_bases (Suc 0) (Some ''child'') Child_cls)"
    by (simp add: register_type_def child_registry child_dispatch_key)
  moreover have "get_registry_for_type (registry_store two_bases (Suc 0) (Some ''child'') Child_cls) Root_cls = Some 0"
    using root_registry by (simp add: get_registry_for_type_def registry_store_def)
  then have "lookup_type (registry_store two_bases (Suc 0) (Some ''child'') Child_cls) Root_cls ''child'' =
      Inl (NoClassForKey ''child'')"
    by (simp add: lookup_type_def registry_store_def two_bases_state)
  ultimately show ?thesis
    using child_dispatch_key by simp
qed

text \<open>
  Claim C1, amended. For every type \<open>S\<close> with dispatch key \<open>k\<close>, and \<open>B\<close> the first
  class of the method resolution order of \<open>S\<close> that has a subregistry:
  \<^verbatim>\<open>register_type(S)\<close> returns \<open>S\<close> and stores \<open>S\<close> under \<open>k\<close> in the subregistry
  of \<open>B\<close>, so that \<^verbatim>\<open>lookup_type(B, k)\<close> returns \<open>S\<close> afterwards.
\<close>

theorem register_type_then_lookup:
  assumes "find (\<lambda>c. type_registries st c \<noteq> None) (mro S) = Some B"
    and "get_dispatch_key (ClassObj S) False = Inr (Some k)"
  shows "fst (register_type st S) = Inr S \<and>
         (\<exists>r. type_registries st B = Some r \<and>
              heap (snd (register_type st S)) r (Some k) = Some S) \<and>
         lookup_type (snd (register_type st S)) B k = Inr S"
proof -
  obtain r where r: "type_registries st B = Some r"
    using find_registered [OF assms(1)] by blast
  have S: "get_registry_for_type st S = Some r"
    using assms(1) r by (simp add: get_registry_for_type_find)
  have reg: "register_type st S = (Inr S, registry_store st r (Some k) S)"
    using S assms(2) by (simp add: register_type_def)
  have stored: "heap (registry_store st r (Some k) S) r (Some k) = Some S"
    by (simp add: registry_store_def)
  have "type_registries (registry_store st r (Some k) S) B = Some r"
    using r by (simp add: registry_store_def)
  then have "get_registry_for_type (registry_store st r (Some k) S) B = Some r"
    by (rule get_registry_for_type_self)
  then have "lookup_type (registry_store st r (Some k) S) B k = Inr S"
    using stored by (simp add: lookup_type_def)
  with reg r stored show ?thesis by simp
qed

theorem register_type_then_lookup_witness:
  "find (\<lambda>c. type_registries base_only c \<noteq> None) (mro Foo_cls) = Some Base_cls \<and>
   get_dispatch_key (ClassObj Foo_cls) False = Inr (Some ''foo'') \<and>
   fst (register_type base_only Foo_cls) = Inr Foo_cls \<and>
   lookup_type (snd (register_type base_only Foo_cls)) Base_cls ''foo'' = Inr Foo_cls"
  using foo_registry foo_dispatch_key
    register_type_then_lookup [OF foo_registry foo_dispatch_key]
  by simp

subsection \<open>Registering a base type\<close>

text \<open>
  Claim C2, as stated: for every base type \<open>B\<close>, \<^verbatim>\<open>register_base_type(B)\<close> returns
  \<open>B\<close>. A class whose \<^verbatim>\<open>__dispatch_key__\<close> is neither null nor a string is rejected by
  the type check of \<^verbatim>\<open>get_dispatch_key\<close>: the call raises \<^verbatim>\<open>TypeError\<close> and returns
  nothing.
\<close>

theorem register_base_type_bad_key_counterexample:
  "cls_dispatch_key BadKey_cls = PyInt 5 \<and>
   get_dispatch_key (ClassObj BadKey_cls) True = Inl (DispatchKeyNotStr ''BadKey'') \<and>
   fst (register_base_type empty_state BadKey_cls) = Inl (DispatchKeyNotStr ''BadKey'') \<and>
   exception_class (DispatchKeyNotStr ''BadKey'') = TypeError"
  by (simp add: register_base_type_result get_dispatch_key_def BadKey_cls_def)

text \<open>
  Claim C2, amended. For every base type \<open>B\<close> whose dispatch key resolves, with missing
  keys allowed, to null or to a string: \<^verbatim>\<open>register_base_type(B)\<close> returns \<open>B\<close> and
  leaves a subregistry for \<open>B\<close>; if the key is a string \<open>k\<close>, then
  \<^verbatim>\<open>lookup_type(B, k)\<close> returns \<open>B\<close> afterwards; if there is no key and \<open>B\<close> had no
  subregistry, the subregistry created is empty; a subregistry that \<open>B\<close> already had is
  the one kept; and a second call returns \<open>B\<close> again and changes nothing.
\<close>

theorem register_base_type_registers:
  assumes "get_dispatch_key (ClassObj B) True = Inr ko"
  shows "fst (register_base_type st B) = Inr B \<and>
         type_registries (snd (register_base_type st B)) B \<noteq> None \<and>
         (\<forall>k. ko = Some k \<longrightarrow> lookup_type (snd (register_base_type st B)) B k = Inr B) \<and>
         (ko = None \<and> type_registries st B = None \<longrightarrow>
            (\<exists>r. type_registries (snd (register_base_type st B)) B = Some r \<and>
                 heap (snd (register_base_type st B)) r = Map.empty)) \<and>
         (\<forall>r. type_registries st B = Some r \<longrightarrow>
            type_registries (snd (register_base_type st B)) B = Some r) \<and>
         register_base_type (snd (register_base_type st B)) B =
           (Inr B, snd (register_base_type st B))"
proof -
  define r0 where "r0 = fst (setdefault_registry st B)"
  define st1 where "st1 = snd (setdefault_registry st B)"
  define st' where "st' = snd (register_base_type st B)"
  have reg: "type_registries st' B = Some r0"
    unfolding st'_def r0_def by (rule register_base_type_ensures_registry)
  then have again: "setdefault_registry st' B = (r0, st')"
    by (rule setdefault_registry_existing)
  have ret: "fst (register_base_type st B) = Inr B"
    using assms by (simp add: register_base_type_result split: option.splits)
  have st'_eq: "st' = (case ko of None \<Rightarrow> st1 | Some k \<Rightarrow> registry_store st1 r0 (Some k) B)"
    using assms unfolding st'_def st1_def r0_def
    by (simp add: register_base_type_result split: option.splits)
  have look: "lookup_type st' B k = Inr B" if "ko = Some k" for k
  proof -
    have "get_registry_for_type st' B = Some r0"
      using reg by (rule get_registry_for_type_self)
    moreover have "heap st' r0 (Some k) = Some B"
      using that st'_eq by (simp add: registry_store_def)
    ultimately show ?thesis by (simp add: lookup_type_def)
  qed
  have fresh: "\<exists>r. type_registries st' B = Some r \<and> heap st' r = Map.empty"
    if "ko = None" "type_registries st B = None"
  proof -
    have "heap st1 r0 = Map.empty"
      unfolding st1_def r0_def using that(2) by (rule setdefault_registry_new)
    with that(1) st'_eq reg show ?thesis by simp
  qed
  have reuse: "type_registries st' B = Some r" if "type_registries st B = Some r" for r
    using reg setdefault_registry_existing [OF that] by (simp add: r0_def)
  have idem: "register_base_type st' B = (Inr B, st')"
  proof (cases ko)
    case None
    with assms again show ?thesis by (simp add: register_base_type_result)
  next
    case (Some k)
    then have "heap st' r0 (Some k) = Some B"
      using st'_eq by (simp add: registry_store_def)
    then have "registry_store st' r0 (Some k) B = st'"
      by (rule registry_store_same)
    with Some assms again show ?thesis by (simp add: register_base_type_result)
  qed
  from ret reg look fresh reuse idem show ?thesis
    unfolding st'_def by simp
qed

theorem register_base_type_registers_witness:
  "get_dispatch_key (ClassObj Base_cls) True = Inr (Some ''base'') \<and>
   fst (register_base_type empty_state Base_cls) = Inr Base_cls \<and>
   lookup_type (snd (register_base_type empty_state Base_cls)) Base_cls ''base'' = Inr Base_cls \<and>
   register_base_type (snd (register_base_type empty_state Base_cls)) Base_cls =
     (Inr Base_cls, snd (register_base_type empty_state Base_cls)) \<and>
   get_dispatch_key (ClassObj Root_cls) True = Inr None \<and>
   type_registries empty_state Root_cls = None \<and>
   fst (register_base_type empty_state Root_cls) = Inr Root_cls \<and>
   (\<exists>r. type_registries (snd (register_base_type empty_state Root_cls)) Root_cls = Some r \<and>
        heap (snd (register_base_type empty_state Root_cls)) r = Map.empty) \<and>
   type_registries base_only Base_cls = Some 0 \<and>
   type_registries (snd (register_base_type base_only Base_cls)) Base_cls = Some 0"
proof -
  have e: "type_registries empty_state Root_cls = None" by (simp add: empty_state_def)
  have b: "type_registries base_only Base_cls = Some 0" by (simp add: base_only_state)
  show ?thesis
    using base_dispatch_key root_dispatch_key e b
      register_base_type_registers [OF base_dispatch_key, of empty_state]
      register_base_type_registers [OF root_dispatch_key, of empty_state]
      register_base_type_registers [OF base_dispatch_key, of base_only]
    by simp
qed

subsection \<open>Looking up a type\<close>

text \<open>
  Claim C3 says that \<^verbatim>\<open>lookup_type\<close> fails with a lookup error when no class of the
  method resolution order has a subregistry. The code does not test the registry for
  \<^verbatim>\<open>None\<close> (as \<^verbatim>\<open>register_type\<close> does) before it calls \<^verbatim>\<open>registry.get\<close>: on the
  empty registry, \<^verbatim>\<open>lookup_type(Root, "child")\<close> raises \<^verbatim>\<open>AttributeError\<close>, not
  \<^verbatim>\<open>KeyError\<close>.
\<close>

theorem lookup_type_without_registry:
  "get_registry_for_type empty_state Root_cls = None \<and>
   lookup_type empty_state Root_cls ''child'' = Inl NoneHasNoGet \<and>
   exception_class NoneHasNoGet = AttributeError"
  by (simp add: lookup_type_def get_registry_for_type_def empty_state_def)

subsection \<open>Failed registrations\<close>

text \<open>
  Claim C4 says that a failed \<^verbatim>\<open>register_type\<close> or \<^verbatim>\<open>register_base_type\<close> leaves the
  registry as it was. \<^verbatim>\<open>register_base_type\<close> creates the subregistry before it resolves
  the dispatch key: for a class whose \<^verbatim>\<open>__dispatch_key__ = 5\<close>, on the empty registry,
  it raises \<^verbatim>\<open>TypeError\<close> and leaves a subregistry for the class behind.
  (\<^verbatim>\<open>register_type\<close> does leave the state as it was, see
  \<open>register_type_failure_keeps_state\<close>.)
\<close>

theorem register_base_type_failure_mutates:
  "fst (register_base_type empty_state BadKey_cls) = Inl (DispatchKeyNotStr ''BadKey'') \<and>
   type_registries empty_state BadKey_cls = None \<and>
   type_registries (snd (register_base_type empty_state BadKey_cls)) BadKey_cls = Some 0"
  by (simp add: register_base_type_def setdefault_registry_def empty_state_def
      get_dispatch_key_def BadKey_cls_def)

subsection \<open>Missing dispatch keys\<close>

text \<open>
  Claim C5, as stated: whenever the resolved dispatch key is absent or null and missing
  keys are not allowed, \<^verbatim>\<open>get_dispatch_key\<close> fails with the missing-key error (a
  \<^verbatim>\<open>ValueError\<close>). When the attribute is a callable that returns \<^verbatim>\<open>None\<close>, the code
  reaches the type check instead and raises \<^verbatim>\<open>TypeError\<close>.
\<close>

theorem get_dispatch_key_null_callable_counterexample:
  "getattr_dispatch_key (ClassObj Lazy_cls) = PyCallable (Inr PyNone) \<and>
   call (PyCallable (Inr PyNone)) = Inr PyNone \<and>
   get_dispatch_key (ClassObj Lazy_cls) False = Inl (DispatchKeyNotStr ''Lazy'') \<and>
   exception_class (DispatchKeyNotStr ''Lazy'') = TypeError"
  by (simp add: get_dispatch_key_def Lazy_cls_def)

text \<open>
  Claim C5, amended. For every class or instance whose \<^verbatim>\<open>__dispatch_key__\<close> attribute
  is absent or null, or is a callable that returns null: with missing keys allowed,
  \<^verbatim>\<open>get_dispatch_key\<close> returns null; with missing keys not allowed, it fails with the
  missing-key error when the attribute itself is absent or null, and with the type error
  when the attribute is a callable that returns null.
\<close>

theorem get_dispatch_key_missing:
  assumes "getattr_dispatch_key obj = PyNone \<or> getattr_dispatch_key obj = PyCallable (Inr PyNone)"
  shows "get_dispatch_key obj True = Inr None \<and>
         get_dispatch_key obj False =
           Inl (if getattr_dispatch_key obj = PyNone then MissingDispatchKey (type_name_of obj)
                else DispatchKeyNotStr (type_name_of obj))"
  using assms by (auto simp: get_dispatch_key_def)

theorem get_dispatch_key_missing_witness:
  "getattr_dispatch_key (ClassObj Root_cls) = PyNone \<and>
   get_dispatch_key (ClassObj Root_cls) True = Inr None \<and>
   get_dispatch_key (ClassObj Root_cls) False = Inl (MissingDispatchKey ''Root'') \<and>
   getattr_dispatch_key (InstanceObj Lazy_cls (PyCallable (Inr PyNone))) = PyCallable (Inr PyNone) \<and>
   get_dispatch_key (InstanceObj Lazy_cls (PyCallable (Inr PyNone))) True = Inr None \<and>
   get_dispatch_key (InstanceObj Lazy_cls (PyCallable (Inr PyNone))) False = Inl (DispatchKeyNotStr ''Lazy'')"
proof -
  have a: "getattr_dispatch_key (ClassObj Root_cls) = PyNone" by (simp add: Root_cls_def)
  have b: "getattr_dispatch_key (InstanceObj Lazy_cls (PyCallable (Inr PyNone))) = PyCallable (Inr PyNone)"
    by simp
  have n: "cls_name Root_cls = ''Root''" "cls_name Lazy_cls = ''Lazy''"
    by (simp_all add: Root_cls_def Lazy_cls_def)
  show ?thesis
    using a b n get_dispatch_key_missing [of "ClassObj Root_cls"]
      get_dispatch_key_missing [of "InstanceObj Lazy_cls (PyCallable (Inr PyNone))"]
    by simp
qed

subsection \<open>Registering a type with no registered ancestor\<close>

text \<open>
  Claim C6. For every type \<open>S\<close> such that no class of its method resolution order
  (\<open>S\<close> included) has a subregistry, \<^verbatim>\<open>register_type(S)\<close> fails with the
  registry-not-found error (a \<^verbatim>\<open>ValueError\<close>) and leaves the state as it was; and
  \<^verbatim>\<open>register_type\<close> never changes which classes have a subregistry, so it creates none
  for \<open>S\<close>.
\<close>

theorem register_type_no_registry:
  "((\<forall>c \<in> set (mro S). type_registries st c = None) \<longrightarrow>
      register_type st S = (Inl (NoRegistryFound (cls_name S)), st) \<and>
      exception_class (NoRegistryFound (cls_name S)) = ValueError) \<and>
   type_registries (snd (register_type st S)) = type_registries st"
proof (intro conjI impI)
  assume "\<forall>c \<in> set (mro S). type_registries st c = None"
  then have "get_registry_for_type st S = None"
    by (simp add: get_registry_for_type_None)
  then show "register_type st S = (Inl (NoRegistryFound (cls_name S)), st)"
    by (simp add: register_type_def)
next
  show "exception_class (NoRegistryFound (cls_name S)) = ValueError" by simp
next
  show "type_registries (snd (register_type st S)) = type_registries st"
    by (rule register_type_keeps_registries)
qed

theorem register_type_no_registry_witness:
  "list_all (\<lambda>c. type_registries empty_state c = None) (mro Child_cls) \<and>
   register_type empty_state Child_cls = (Inl (NoRegistryFound ''Child''), empty_state) \<and>
   type_registries (snd (register_type empty_state Child_cls)) Child_cls = None"
proof -
  have h: "\<forall>c \<in> set (mro Child_cls). type_registries empty_state c = None"
    by (simp add: empty_state_def)
  have n: "cls_name Child_cls = ''Child''" by (simp add: Child_cls_def)
  from h have "list_all (\<lambda>c. type_registries empty_state c = None) (mro Child_cls)"
    by (simp add: list_all_iff)
  moreover have "type_registries empty_state Child_cls = None" by (simp add: empty_state_def)
  ultimately show ?thesis
    using h n register_type_no_registry [of Child_cls empty_state] by simp
qed

section \<open>Properties of the filter validator\<close>

subsection \<open>The rules, one by one\<close>

lemma recognized_apply:
  "recognized ft args name = (if name \<in> set (ft_fields ft) then args name else None)"
  by (simp add: recognized_def restrict_map_def)

lemma no_operator_iff:
  "no_operator ft args \<longleftrightarrow> (\<forall>name \<in> set (ft_fields ft). args name = None)"
  by (auto simp: no_operator_def recognized_apply list_all_iff)

lemma rule_violated_fields_set:
  assumes "rule_violated a r"
  shows "a (fst (rule_fields r)) \<noteq> None \<and> a (snd (rule_fields r)) \<noteq> None"
proof (cases r)
  case (ExclusiveWithIsNull i n)
  with assms show ?thesis by simp
next
  case (OrderedRange b c)
  with assms show ?thesis
    by (cases "a b"; cases "a c") (auto split: option.splits)
qed

lemma applicable_rule_needs_two_fields:
  assumes "rule_applies ft r" and "rule_violated (recognized ft args) r"
  shows "\<exists>x \<in> set (ft_fields ft). \<exists>y \<in> set (ft_fields ft). x \<noteq> y \<and> args x \<noteq> None \<and> args y \<noteq> None"
proof -
  obtain x y where xy: "rule_fields r = (x, y)" by (cases "rule_fields r")
  from assms(1) xy have d: "x \<noteq> y" "x \<in> set (ft_fields ft)" "y \<in> set (ft_fields ft)"
    by (simp_all add: rule_applies_def)
  from rule_violated_fields_set [OF assms(2)] xy d
  have "args x \<noteq> None" "args y \<noteq> None"
    by (simp_all add: recognized_apply)
  with d show ?thesis by blast
qed

lemma violations_rules_only:
  "\<not> no_operator ft args \<Longrightarrow>
   \<forall>r \<in> set (ft_rules ft). \<not> (rule_applies ft r \<and> rule_violated (recognized ft args) r) \<Longrightarrow>
   violations ft args = []"
  by (simp add: violations_def filter_empty_conv)

lemma violation_of_inj: "violation_of r = violation_of r' \<Longrightarrow> r = r'"
  by (cases r; cases r') simp_all

lemma rule_violation_reported:
  "violation_of r \<in> set (violations ft args) \<longleftrightarrow>
   r \<in> set (ft_rules ft) \<and> rule_applies ft r \<and> rule_violated (recognized ft args) r"
proof -
  have "violation_of r \<noteq> NoOperator" by (cases r) simp_all
  then show ?thesis
    by (auto simp: violations_def dest: violation_of_inj)
qed





lemma tags_rule:
  "ExclusiveWithIsNull ''all_'' ''is_null_'' \<in> set (ft_rules FlowFilterTags)"
  "rule_applies FlowFilterTags (ExclusiveWithIsNull ''all_'' ''is_null_'')"
  by (simp_all add: FlowFilterTags_def rule_applies_def)

subsection \<open>At least one operator\<close>

text \<open>
  Claim C7. For every composite filter value: construction fails with the
  \<^verbatim>\<open>ValidationError\<close> of the "at least one operator" rule when every recognized
  constraint field is null or absent, and construction succeeds when exactly one
  constraint field is set.
\<close>

theorem filter_needs_an_operator:
  "((\<forall>name \<in> set (ft_fields ft). args name = None) \<longrightarrow>
      construct_filter ft args = Inl (ValidationError (ft_name ft) [NoOperator])) \<and>
   ((\<exists>name \<in> set (ft_fields ft). args name \<noteq> None \<and>
        (\<forall>other \<in> set (ft_fields ft). args other \<noteq> None \<longrightarrow> other = name)) \<longrightarrow>
      construct_filter ft args = Inr (recognized ft args))"
proof (intro conjI impI)
  assume none: "\<forall>name \<in> set (ft_fields ft). args name = None"
  then have "no_operator ft args" by (simp add: no_operator_iff)
  moreover have "filter (\<lambda>r. rule_applies ft r \<and> rule_violated (recognized ft args) r) (ft_rules ft) = []"
    using none applicable_rule_needs_two_fields [of ft _ args]
    by (auto simp: filter_empty_conv)
  ultimately have "violations ft args = [NoOperator]"
    by (simp add: violations_def)
  then show "construct_filter ft args = Inl (ValidationError (ft_name ft) [NoOperator])"
    by (simp add: construct_filter_def)
next
  assume "\<exists>name \<in> set (ft_fields ft). args name \<noteq> None \<and>
        (\<forall>other \<in> set (ft_fields ft). args other \<noteq> None \<longrightarrow> other = name)"
  then obtain name where name: "name \<in> set (ft_fields ft)" "args name \<noteq> None"
    and only: "\<forall>other \<in> set (ft_fields ft). args other \<noteq> None \<longrightarrow> other = name"
    by blast
  from name have "\<not> no_operator ft args" by (auto simp: no_operator_iff)
  moreover have "\<forall>r \<in> set (ft_rules ft). \<not> (rule_applies ft r \<and> rule_violated (recognized ft args) r)"
    using only applicable_rule_needs_two_fields [of ft _ args] by metis
  ultimately have "violations ft args = []" by (rule violations_rules_only)
  then show "construct_filter ft args = Inr (recognized ft args)"
    by (simp add: construct_filter_def)
qed

theorem filter_needs_an_operator_witness:
  "list_all (\<lambda>name. (Map.empty :: filter_args) name = None) (ft_fields MyNewFilter) \<and>
   construct_filter MyNewFilter Map.empty = Inl (ValidationError (ft_name MyNewFilter) [NoOperator]) \<and>
   ''foo_'' \<in> set (ft_fields MyNewFilter) \<and>
   [''foo_'' \<mapsto> FInt 1] ''foo_'' = Some (FInt 1) \<and>
   [''foo_'' \<mapsto> FInt 1] ''bar_'' = None \<and>
   construct_filter MyNewFilter [''foo_'' \<mapsto> FInt 1] = Inr (recognized MyNewFilter [''foo_'' \<mapsto> FInt 1])"
proof -
  have none: "\<forall>name \<in> set (ft_fields MyNewFilter). (Map.empty :: filter_args) name = None"
    by simp
  have one: "\<exists>name \<in> set (ft_fields MyNewFilter). [''foo_'' \<mapsto> FInt 1] name \<noteq> None \<and>
        (\<forall>other \<in> set (ft_fields MyNewFilter). [''foo_'' \<mapsto> FInt 1] other \<noteq> None \<longrightarrow> other = name)"
    by (simp add: MyNewFilter_def)
  have 1: "list_all (\<lambda>name. (Map.empty :: filter_args) name = None) (ft_fields MyNewFilter)"
    using none by (simp add: list_all_iff)
  have 2: "construct_filter MyNewFilter Map.empty = Inl (ValidationError (ft_name MyNewFilter) [NoOperator])"
    using filter_needs_an_operator [of MyNewFilter Map.empty, THEN conjunct1] none by blast
  have 3: "''foo_'' \<in> set (ft_fields MyNewFilter)"
    by (simp add: MyNewFilter_def)
  have 4: "[''foo_'' \<mapsto> FInt 1] ''foo_'' = Some (FInt 1)" "[''foo_'' \<mapsto> FInt 1] ''bar_'' = None"
    by simp_all
  have 5: "construct_filter MyNewFilter [''foo_'' \<mapsto> FInt 1] = Inr (recognized MyNewFilter [''foo_'' \<mapsto> FInt 1])"
    using filter_needs_an_operator [of MyNewFilter "[''foo_'' \<mapsto> FInt 1]", THEN conjunct2] one by blast
  from 1 2 3 4 5 show ?thesis by (intro conjI)
qed

subsection \<open>Ordered time ranges\<close>




subsection \<open>Inclusion operators exclude is-null\<close>

text \<open>
  Claim C9. For every filter type declaring both an inclusion-list operator and an
  is-null flag: construction fails with a \<^verbatim>\<open>ValidationError\<close> that reports the rule
  whenever both are set, whatever the inclusion list holds, the empty list included.
\<close>

theorem inclusion_excludes_is_null:
  assumes "ExclusiveWithIsNull i n \<in> set (ft_rules ft)"
    and "rule_applies ft (ExclusiveWithIsNull i n)"
    and "args i \<noteq> None" and "args n \<noteq> None"
  shows "\<exists>errs. construct_filter ft args = Inl (ValidationError (ft_name ft) errs) \<and>
           InclusionWithIsNull i n \<in> set errs"
proof -
  from assms(2) have decl: "i \<in> set (ft_fields ft)" "n \<in> set (ft_fields ft)"
    by (simp_all add: rule_applies_def)
  with assms(3,4) have "rule_violated (recognized ft args) (ExclusiveWithIsNull i n)"
    by (simp add: recognized_apply)
  with assms(1,2) have "InclusionWithIsNull i n \<in> set (violations ft args)"
    using rule_violation_reported [of "ExclusiveWithIsNull i n" ft args] by simp
  moreover from this have "violations ft args \<noteq> []" by auto
  ultimately show ?thesis
    by (simp add: construct_filter_def)
qed

theorem inclusion_excludes_is_null_witness:
  "ExclusiveWithIsNull ''all_'' ''is_null_'' \<in> set (ft_rules FlowFilterTags) \<and>
   rule_applies FlowFilterTags (ExclusiveWithIsNull ''all_'' ''is_null_'') \<and>
   [''all_'' \<mapsto> FList [], ''is_null_'' \<mapsto> FFlag True] ''all_'' = Some (FList []) \<and>
   [''all_'' \<mapsto> FList [], ''is_null_'' \<mapsto> FFlag True] ''is_null_'' = Some (FFlag True) \<and>
   (\<exists>errs. construct_filter FlowFilterTags [''all_'' \<mapsto> FList [], ''is_null_'' \<mapsto> FFlag True] =
      Inl (ValidationError (ft_name FlowFilterTags) errs) \<and>
      InclusionWithIsNull ''all_'' ''is_null_'' \<in> set errs)"
proof -
  have a: "[''all_'' \<mapsto> FList [], ''is_null_'' \<mapsto> FFlag True] ''all_'' = Some (FList [])"
    by simp
  have b: "[''all_'' \<mapsto> FList [], ''is_null_'' \<mapsto> FFlag True] ''is_null_'' = Some (FFlag True)"
    by simp
  have a': "[''all_'' \<mapsto> FList [], ''is_null_'' \<mapsto> FFlag True] ''all_'' \<noteq> None"
    using a by simp
  have b': "[''all_'' \<mapsto> FList [], ''is_null_'' \<mapsto> FFlag True] ''is_null_'' \<noteq> None"
    using b by simp
  from tags_rule a b inclusion_excludes_is_null [OF tags_rule a' b']
  show ?thesis by (intro conjI)
qed

end
